theory Spec2Isabelle
  imports Complex_Main "HOL-Library.Sublist"
begin

section \<open>Bank-statement ingestion (backend/app/services/risk\_service.py)\<close>

text \<open>
  Modelling conventions.
  \<^item> A Python \<open>bytes\<close> value is a list of 8-bit characters; a Python \<open>str\<close> is a list of
    code points, restricted here to the code points 0..255 (one \<open>char\<close> each).
  \<^item> Numbers held in a pandas Series are exact reals; a missing value (NaN) is \<open>None\<close>.
    The float64/int64 representation (rounding of sums, overflow) is not part of the model.
  \<^item> An exception is a value \<open>Inl e\<close> of a sum type.
  \<^item> What the third-party libraries compute (the codecs, the pandas readers, the PDF and
    DOCX table extractors, \<open>pd.to_datetime\<close>, the date pattern, the text of a float)
    is a parameter: the record \<open>env\<close>.
\<close>

subsection \<open>Characters and strings\<close>

type_synonym bytes = "char list"

definition is_digit :: "char \<Rightarrow> bool" where
  \<comment> \<open>the class \<open>\d\<close> on code points 0..255\<close>
  "is_digit c = (let n = (of_char c :: nat) in 48 \<le> n \<and> n \<le> 57)"

definition is_space :: "char \<Rightarrow> bool" where
  \<comment> \<open>\<open>str.isspace\<close> on code points 0..255\<close>
  "is_space c = (let n = (of_char c :: nat) in
     (9 \<le> n \<and> n \<le> 13) \<or> (28 \<le> n \<and> n \<le> 32) \<or> n = 133 \<or> n = 160)"

definition strip :: "string \<Rightarrow> string" where
  "strip s = rev (dropWhile is_space (rev (dropWhile is_space s)))"

fun lower_char :: "char \<Rightarrow> char" where
  \<comment> \<open>\<open>str.lower\<close> on one code point of 0..255: the upper-case letters are 65..90 and
      192..222 without 215; adding 32 sets the bit of weight 32, which is clear in them\<close>
  "lower_char (Char b0 b1 b2 b3 b4 b5 b6 b7) =
     (let n = (of_char (Char b0 b1 b2 b3 b4 b5 b6 b7) :: nat) in
      if (65 \<le> n \<and> n \<le> 90) \<or> (192 \<le> n \<and> n \<le> 222 \<and> n \<noteq> 215)
      then Char b0 b1 b2 b3 b4 True b6 b7 else Char b0 b1 b2 b3 b4 b5 b6 b7)"

definition lower :: "string \<Rightarrow> string" where
  "lower s = map lower_char s"

fun contains :: "string \<Rightarrow> string \<Rightarrow> bool" where
  \<comment> \<open>\<open>contains k s\<close> is Python's \<open>k in s\<close>\<close>
  "contains k [] = (k = [])"
| "contains k (c # cs) = (prefix k (c # cs) \<or> contains k cs)"

definition contains_any :: "string list \<Rightarrow> string \<Rightarrow> bool" where
  \<comment> \<open>\<open>any(k in s for k in ks)\<close>, and \<open>str.contains\<close> with an alternation of literals\<close>
  "contains_any ks s = list_ex (\<lambda>k. contains k s) ks"

definition is_alnum_lower :: "char \<Rightarrow> bool" where
  \<comment> \<open>the class \<open>[a-z0-9]\<close>\<close>
  "is_alnum_lower c = (let n = (of_char c :: nat) in (97 \<le> n \<and> n \<le> 122) \<or> is_digit c)"

definition normalize_col_name :: "string \<Rightarrow> string" where
  \<comment> \<open>\<open>re.sub(r"[^a-z0-9]+", "", str(name).strip().lower())\<close>\<close>
  "normalize_col_name name = filter is_alnum_lower (lower (strip name))"

subsection \<open>Numbers\<close>

definition digit_val :: "char \<Rightarrow> nat" where
  "digit_val c = of_char c - 48"

definition digits_val :: "string \<Rightarrow> nat" where
  "digits_val ds = foldl (\<lambda>a c. 10 * a + digit_val c) 0 ds"

definition parse_unsigned :: "string \<Rightarrow> real option" where
  \<comment> \<open>digits, an optional point, digits; at least one digit; nothing else\<close>
  "parse_unsigned s =
     (let ip = takeWhile is_digit s; r = dropWhile is_digit s in
      case r of
        [] \<Rightarrow> if ip = [] then None else Some (real (digits_val ip))
      | c # fp \<Rightarrow>
          if c = CHR ''.'' \<and> list_all is_digit fp \<and> (ip \<noteq> [] \<or> fp \<noteq> [])
          then Some (real (digits_val ip) + real (digits_val fp) / 10 ^ length fp)
          else None)"

definition parse_decimal :: "string \<Rightarrow> real option" where
  \<comment> \<open>The strings that \<open>float\<close> and \<open>pd.to_numeric\<close> convert, among strings over
      digits, point and sign: one optional sign, then an unsigned decimal.\<close>
  "parse_decimal s =
     (case s of
        [] \<Rightarrow> None
      | c # cs \<Rightarrow>
          if c = CHR ''-'' then map_option uminus (parse_unsigned cs)
          else if c = CHR ''+'' then parse_unsigned cs
          else parse_unsigned s)"

definition py_round :: "real \<Rightarrow> nat \<Rightarrow> real" where
  \<comment> \<open>\<open>round(x, n)\<close>: to the nearest multiple of \<open>10^-n\<close>, a tie to the even one\<close>
  "py_round x n =
     (let y = x * 10 ^ n; f = \<lfloor>y\<rfloor>; d = y - of_int f in
      (if d < 1 / 2 then of_int f
       else if 1 / 2 < d then of_int (f + 1)
       else if even f then of_int f else of_int (f + 1)) / 10 ^ n)"

subsection \<open>Raw tables\<close>

text \<open>
  A cell of a DataFrame: a Python string (or any object, by its \<open>str\<close>), an integer, a
  float, or a missing value. A frame keeps its column labels in order (each label by its
  \<open>str\<close>; labels may repeat) and its rows; a row shorter than the header is padded with
  missing values.
\<close>

datatype cell = Text string | Whole int | Number real | NaN

record frame =
  columns :: "string list"
  rows :: "cell list list"

definition empty_frame :: frame where
  \<comment> \<open>\<open>pd.DataFrame()\<close>\<close>
  "empty_frame = \<lparr>columns = [], rows = []\<rparr>"

definition frame_empty :: "frame \<Rightarrow> bool" where
  \<comment> \<open>\<open>df.empty\<close>: some axis has length 0\<close>
  "frame_empty fr = (columns fr = [] \<or> rows fr = [])"

definition cell_at :: "cell list \<Rightarrow> nat \<Rightarrow> cell" where
  "cell_at r i = (if i < length r then r ! i else NaN)"

type_synonym timestamp = int

datatype 'a outcome = Raised | Returned 'a

record env =
  decode_utf8_sig :: "bytes \<Rightarrow> string option"
  decode_utf8 :: "bytes \<Rightarrow> string option"
  decode_utf8_ignore :: "bytes \<Rightarrow> string"
  read_csv :: "bytes \<Rightarrow> frame outcome"
  read_excel :: "bytes \<Rightarrow> frame outcome"
  read_json :: "bytes \<Rightarrow> frame outcome"
  read_xml :: "bytes \<Rightarrow> frame outcome"
  tables_from_pdf :: "bytes \<Rightarrow> frame option outcome"
  tables_from_docx :: "bytes \<Rightarrow> frame option outcome"
  to_datetime :: "bool \<Rightarrow> cell \<Rightarrow> timestamp option"
  date_search :: "string \<Rightarrow> string option"
  float_str :: "real \<Rightarrow> string"

text \<open>
  The fields of \<open>env\<close>: \<open>bytes.decode\<close> for the codecs utf-8-sig and utf-8 (\<open>None\<close> when
  it raises) and for utf-8 with \<open>errors="ignore"\<close>; \<open>pd.read_csv(sep=None,
  engine="python")\<close>, \<open>pd.read_excel\<close>, \<open>pd.read_json\<close>, \<open>pd.read_xml\<close> on the
  bytes; the first component of \<open>_tables_from_pdf\<close> and of \<open>_tables_from_docx\<close>, which
  rest on the optional parsers pdfplumber and python-docx; \<open>pd.to_datetime(errors="coerce")\<close>
  on one cell, with its \<open>dayfirst\<close> flag; \<open>date_re.search(line).group(0)\<close>; the \<open>str\<close>
  of a float.
\<close>

subsection \<open>Decoder\<close>

definition decode_bytes :: "env \<Rightarrow> bytes \<Rightarrow> string" where
  \<comment> \<open>latin1 maps each byte to the code point of the same number and never fails\<close>
  "decode_bytes E contents =
     (case decode_utf8_sig E contents of
        Some t \<Rightarrow> t
      | None \<Rightarrow>
         (case decode_utf8 E contents of
            Some t \<Rightarrow> t
          | None \<Rightarrow>
             (case Some contents of
                Some t \<Rightarrow> t
              | None \<Rightarrow> decode_utf8_ignore E contents)))"

subsection \<open>Numeric normalizer\<close>

definition digit_char :: "nat \<Rightarrow> char" where
  "digit_char d = ''0123456789'' ! d"

fun show_nat :: "nat \<Rightarrow> string" where
  "show_nat n = (if n < 10 then [digit_char n] else show_nat (n div 10) @ [digit_char (n mod 10)])"

declare show_nat.simps [simp del]

definition show_int :: "int \<Rightarrow> string" where
  "show_int i = (if i < 0 then CHR ''-'' # show_nat (nat (- i)) else show_nat (nat i))"

definition cell_str :: "env \<Rightarrow> cell \<Rightarrow> string" where
  \<comment> \<open>one value of \<open>series.astype(str)\<close>\<close>
  "cell_str E c =
     (case c of Text s \<Rightarrow> s | Whole i \<Rightarrow> show_int i | Number x \<Rightarrow> float_str E x | NaN \<Rightarrow> ''nan'')"

definition clean_numeric :: "string \<Rightarrow> string" where
  \<comment> \<open>\<open>.str.replace(",", "")\<close>, then \<open>.str.replace(r"[^\d\.\-]", "", regex=True)\<close>\<close>
  "clean_numeric s =
     filter (\<lambda>c. is_digit c \<or> c = CHR ''.'' \<or> c = CHR ''-'') (filter (\<lambda>c. c \<noteq> CHR '','') s)"

definition to_numeric :: "env \<Rightarrow> cell \<Rightarrow> real option" where
  \<comment> \<open>one value of \<open>_to_numeric(series)\<close>\<close>
  "to_numeric E c =
     (let s = clean_numeric (cell_str E c) in
      if s = [] \<or> s = ''-'' \<or> s = ''.'' \<or> s = ''--'' then None else parse_decimal s)"

subsection \<open>Text transaction extractor\<close>

definition is_linebreak :: "char \<Rightarrow> bool" where
  \<comment> \<open>the line boundaries of \<open>str.splitlines\<close> among the code points 0..255\<close>
  "is_linebreak c = (let n = (of_char c :: nat) in (10 \<le> n \<and> n \<le> 13) \<or> (28 \<le> n \<and> n \<le> 30) \<or> n = 133)"

fun splitlines_from :: "string \<Rightarrow> string \<Rightarrow> string list" where
  \<comment> \<open>the first argument is the line read so far, reversed\<close>
  "splitlines_from cur [] = (if cur = [] then [] else [rev cur])"
| "splitlines_from cur [c] = (if is_linebreak c then [rev cur] else [rev (c # cur)])"
| "splitlines_from cur (c # d # cs) =
     (if (of_char c :: nat) = 13 \<and> (of_char d :: nat) = 10 then rev cur # splitlines_from [] cs
      else if is_linebreak c then rev cur # splitlines_from [] (d # cs)
      else splitlines_from (c # cur) (d # cs))"

definition splitlines :: "string \<Rightarrow> string list" where
  "splitlines t = splitlines_from [] t"

definition scan_amount_tail :: "string \<Rightarrow> string \<times> string" where
  \<comment> \<open>the longest prefix matching \<open>[\d,]*\.?\d*\<close>, and the rest\<close>
  "scan_amount_tail s =
     (let a = takeWhile (\<lambda>c. is_digit c \<or> c = CHR '','') s;
          r1 = dropWhile (\<lambda>c. is_digit c \<or> c = CHR '','') s;
          p = (case r1 of [] \<Rightarrow> [] | c # _ \<Rightarrow> if c = CHR ''.'' then [c] else []);
          r2 = drop (length p) r1
      in (a @ p @ takeWhile is_digit r2, dropWhile is_digit r2))"

function (sequential) find_amounts :: "string \<Rightarrow> string list" where
  \<comment> \<open>\<open>amount_re.findall(line)\<close> for \<open>[-+]?\d[\d,]*\.?\d*\<close>: the matches from left to
      right, each the longest at its start, none overlapping\<close>
  "find_amounts [] = []"
| "find_amounts [c] = (if is_digit c then [[c]] else [])"
| "find_amounts (c # d # cs) =
     (if is_digit c then
        (case scan_amount_tail (d # cs) of (tok, rest) \<Rightarrow> (c # tok) # find_amounts rest)
      else if (c = CHR ''-'' \<or> c = CHR ''+'') \<and> is_digit d then
        (case scan_amount_tail cs of (tok, rest) \<Rightarrow> (c # d # tok) # find_amounts rest)
      else find_amounts (d # cs))"
  by pat_completeness auto

termination
proof -
  have bound: "length rest \<le> length s" if h: "(tok, rest) = scan_amount_tail s"
    for tok rest s
  proof -
    define r1 where "r1 = dropWhile (\<lambda>c. is_digit c \<or> c = CHR '','') s"
    define p where "p = (case r1 of [] \<Rightarrow> [] | c # _ \<Rightarrow> if c = CHR ''.'' then [c] else [])"
    have e: "rest = dropWhile is_digit (drop (length p) r1)"
      using h by (simp add: scan_amount_tail_def Let_def r1_def p_def)
    have "length rest \<le> length (drop (length p) r1)"
      unfolding e by (rule length_dropWhile_le)
    also have "\<dots> \<le> length r1"
      by simp
    also have "\<dots> \<le> length s"
      unfolding r1_def by (rule length_dropWhile_le)
    finally show ?thesis .
  qed
  show ?thesis
    by (relation "measure length") (auto dest: bound)
qed

definition credit_words :: "string list" where
  "credit_words = [''credit'', ''cr'', ''salary'', ''deposit'', ''refund'', ''received'']"

definition debit_words :: "string list" where
  "debit_words = [''debit'', ''dr'', ''withdraw'', ''spent'', ''purchase'', ''payment'']"

definition text_row :: "env \<Rightarrow> string \<Rightarrow> cell list option" where
  \<comment> \<open>the body of the loop over the lines: \<open>None\<close> is \<open>continue\<close>; the cells are those of
      the keys date, description, amount, balance, type\<close>
  "text_row E raw_line =
     (let line = strip raw_line in
      if length line < 5 then None
      else
        let numbers = find_amounts line in
        if numbers = [] then None
        else
          let parsed_numbers =
                List.map_filter (\<lambda>n. parse_decimal (filter (\<lambda>c. c \<noteq> CHR '','') n)) numbers
          in
          (case parsed_numbers of
             [] \<Rightarrow> None
           | first # _ \<Rightarrow>
               let amount = \<bar>first\<bar>;
                   balance = (if 2 \<le> length parsed_numbers then Number \<bar>last parsed_numbers\<bar> else NaN);
                   low = lower line;
                   tx_type =
                     (if contains_any credit_words low then ''credit''
                      else if contains_any debit_words low then ''debit''
                      else ''debit'')
               in Some [Text (case date_search E line of Some d \<Rightarrow> d | None \<Rightarrow> []),
                        Text line, Number amount, balance, Text tx_type]))"

definition extract_text_transactions :: "env \<Rightarrow> string \<Rightarrow> frame" where
  \<comment> \<open>\<open>pd.DataFrame(rows)\<close> of a list of dicts with the same keys; of no dict it has no column\<close>
  "extract_text_transactions E t =
     (let rs = List.map_filter (text_row E) (splitlines t) in
      if rs = [] then empty_frame
      else \<lparr>columns = [''date'', ''description'', ''amount'', ''balance'', ''type''], rows = rs\<rparr>)"

subsection \<open>Loader chain\<close>

definition file_extension :: "string option \<Rightarrow> string" where
  \<comment> \<open>\<open>filename.lower().rsplit(".", 1)[-1]\<close> when the name has a point, else the empty string\<close>
  "file_extension filename =
     (case filename of
        None \<Rightarrow> []
      | Some f \<Rightarrow>
          if CHR ''.'' \<in> set f then rev (takeWhile (\<lambda>c. c \<noteq> CHR ''.'') (rev (lower f))) else [])"

definition as_candidate :: "frame outcome \<Rightarrow> frame option outcome" where
  "as_candidate r = (case r of Raised \<Rightarrow> Raised | Returned fr \<Rightarrow> Returned (Some fr))"

definition loaders :: "env \<Rightarrow> bytes \<Rightarrow> string option \<Rightarrow> (string \<times> frame option outcome) list" where
  \<comment> \<open>each strategy with what its call gives; \<open>buffer\<close> is unread when its one strategy runs,
      so that reads the same bytes as a fresh \<open>io.BytesIO(contents)\<close>\<close>
  "loaders E contents filename =
     (let extension = file_extension filename;
          csv_auto = as_candidate (read_csv E contents);
          excel = as_candidate (read_excel E contents);
          json = as_candidate (read_json E contents);
          xml = as_candidate (read_xml E contents);
          pdf = tables_from_pdf E contents;
          docx = tables_from_docx E contents
      in
      (if extension = ''csv'' then [(''csv'', csv_auto)]
       else if extension \<in> {''xlsx'', ''xls''} then [(''excel'', excel)]
       else if extension \<in> {''tsv'', ''txt''} then [(''text_csv'', csv_auto)]
       else if extension = ''json'' then [(''json'', json)]
       else if extension = ''xml'' then [(''xml'', xml)]
       else if extension = ''pdf'' then [(''pdf'', pdf)]
       else if extension \<in> {''docx'', ''doc''} then [(''docx'', docx)]
       else [])
      @ [(''csv'', csv_auto), (''excel'', excel), (''json'', json), (''xml'', xml),
         (''pdf'', pdf), (''docx'', docx)])"

fun first_hit :: "(string \<times> frame option outcome) list \<Rightarrow> (frame \<times> string) option" where
  \<comment> \<open>the loop over the loaders: an exception and a \<open>None\<close> or empty candidate go on\<close>
  "first_hit [] = None"
| "first_hit ((loader_name, r) # ls) =
     (case r of
        Raised \<Rightarrow> first_hit ls
      | Returned None \<Rightarrow> first_hit ls
      | Returned (Some candidate) \<Rightarrow>
          if \<not> frame_empty candidate then Some (candidate, loader_name) else first_hit ls)"

definition load_statement_dataframe :: "env \<Rightarrow> bytes \<Rightarrow> string option \<Rightarrow> frame \<times> string" where
  "load_statement_dataframe E contents filename =
     (let t = decode_bytes E contents in
      case first_hit (loaders E contents filename) of
        Some hit \<Rightarrow> hit
      | None \<Rightarrow>
          let text_df = extract_text_transactions E t in
          if \<not> frame_empty text_df then (text_df, ''text_fallback'')
          else (empty_frame, ''unparsed''))"

subsection \<open>Column resolver\<close>

datatype error = KeyError | ValueError | AttributeError

datatype selection = Series "cell list" | SubFrame | Absent

definition select :: "frame \<Rightarrow> string \<Rightarrow> selection" where
  \<comment> \<open>\<open>df[col]\<close>: a Series when one column has the label, a DataFrame when several have\<close>
  "select df col =
     (let k = count_list (columns df) col in
      if k = 0 then Absent
      else if k = 1 then
        Series (map (\<lambda>r. cell_at r (length (takeWhile (\<lambda>c. c \<noteq> col) (columns df)))) (rows df))
      else SubFrame)"

definition numeric_series :: "env \<Rightarrow> frame \<Rightarrow> string \<Rightarrow> error + real option list" where
  \<comment> \<open>\<open>_to_numeric(df[col])\<close>: a DataFrame has no \<open>.str\<close>\<close>
  "numeric_series E df col =
     (case select df col of
        Series vs \<Rightarrow> Inr (map (to_numeric E) vs)
      | SubFrame \<Rightarrow> Inl AttributeError
      | Absent \<Rightarrow> Inl KeyError)"

definition text_series :: "env \<Rightarrow> frame \<Rightarrow> string \<Rightarrow> error + string list" where
  \<comment> \<open>\<open>df[col].astype(str)\<close>, on which \<open>.str\<close> is taken next\<close>
  "text_series E df col =
     (case select df col of
        Series vs \<Rightarrow> Inr (map (cell_str E) vs)
      | SubFrame \<Rightarrow> Inl AttributeError
      | Absent \<Rightarrow> Inl KeyError)"

definition datetime_series :: "env \<Rightarrow> bool \<Rightarrow> frame \<Rightarrow> string \<Rightarrow> error + timestamp option list" where
  \<comment> \<open>\<open>pd.to_datetime(df[col], errors="coerce", dayfirst=...)\<close>: a DataFrame whose columns
      are not year, month and day cannot be assembled\<close>
  "datetime_series E dayfirst df col =
     (case select df col of
        Series vs \<Rightarrow> Inr (map (to_datetime E dayfirst) vs)
      | SubFrame \<Rightarrow> Inl ValueError
      | Absent \<Rightarrow> Inl KeyError)"

definition notna_mean :: "'a option list \<Rightarrow> real option" where
  \<comment> \<open>\<open>series.notna().mean()\<close>; of no value it is NaN\<close>
  "notna_mean vs =
     (if vs = [] then None
      else Some (real (length (filter (\<lambda>v. v \<noteq> None) vs)) / real (length vs)))"

fun best_numeric_scan ::
  "env \<Rightarrow> frame \<Rightarrow> string list \<Rightarrow> string list \<Rightarrow> string option \<times> real
     \<Rightarrow> error + (string option \<times> real)" where
  \<comment> \<open>the loop of \<open>_best_numeric_column\<close> over the columns still to visit, from the state
      \<open>(best_col, best_score)\<close>; a NaN score is greater than nothing\<close>
  "best_numeric_scan E df excluded [] st = Inr st"
| "best_numeric_scan E df excluded (col # cols) (best_col, best_score) =
     (if col \<in> set excluded then best_numeric_scan E df excluded cols (best_col, best_score)
      else
        case numeric_series E df col of
          Inl e \<Rightarrow> Inl e
        | Inr numeric \<Rightarrow>
            (case notna_mean numeric of
               None \<Rightarrow> best_numeric_scan E df excluded cols (best_col, best_score)
             | Some score \<Rightarrow>
                 if score > best_score then best_numeric_scan E df excluded cols (Some col, score)
                 else best_numeric_scan E df excluded cols (best_col, best_score)))"

definition best_numeric_column :: "env \<Rightarrow> frame \<Rightarrow> string list \<Rightarrow> error + string option" where
  "best_numeric_column E df excluded =
     (case best_numeric_scan E df excluded (columns df) (None, - 1) of
        Inl e \<Rightarrow> Inl e
      | Inr (best_col, best_score) \<Rightarrow> if best_score < 3 / 10 then Inr None else Inr best_col)"

fun find_column :: "string list \<Rightarrow> string list \<Rightarrow> string option" where
  \<comment> \<open>\<open>_find_column\<close> on the labels of the frame: the outer loop is over the keywords\<close>
  "find_column cols [] = None"
| "find_column cols (key # keys) =
     (case find (\<lambda>col. contains key (normalize_col_name col)) cols of
        Some col \<Rightarrow> Some col
      | None \<Rightarrow> find_column cols keys)"

definition date_keys :: "string list" where
  "date_keys = [''date'', ''valuedate'', ''postdate'', ''txndate'', ''transactiondate'']"

definition balance_keys :: "string list" where
  "balance_keys = [''balance'', ''runningbalance'', ''availablebalance'', ''closingbalance'',
                   ''runningbal'', ''closingbal'', ''availbal'', ''bal'']"

definition type_keys :: "string list" where
  "type_keys = [''drcr'', ''debitcredit'', ''transtype'', ''type'']"

definition description_keys :: "string list" where
  "description_keys = [''description'', ''narration'', ''remarks'', ''details'', ''particular'',
                       ''merchant'', ''note'']"

definition debit_keys :: "string list" where
  "debit_keys = [''debit'', ''withdraw'', ''dramount'', ''dr'']"

definition credit_keys :: "string list" where
  "credit_keys = [''credit'', ''deposit'', ''cramount'', ''cr'']"

definition amount_keys :: "string list" where
  "amount_keys = [''amount'', ''txnamount'', ''transactionamount'', ''amt'']"

subsection \<open>Statement normalizer\<close>

record txn =
  date :: "timestamp option"
  amount :: real
  tx_type :: string
  balance :: "real option"
  description :: string

record detected =
  date_col :: "string option"
  amount_col :: "string option"
  debit_col :: "string option"
  credit_col :: "string option"
  type_col :: "string option"
  balance_col :: "string option"
  description_col :: "string option"

definition try_bind :: "error + 'a \<Rightarrow> ('a \<Rightarrow> error + 'b) \<Rightarrow> error + 'b" where
  \<comment> \<open>sequencing: an exception of the first step ends the function\<close>
  "try_bind m f = (case m of Inl e \<Rightarrow> Inl e | Inr x \<Rightarrow> f x)"

definition resolve_dates :: "env \<Rightarrow> frame \<Rightarrow> string option \<Rightarrow> error + timestamp option list" where
  \<comment> \<open>the column \<open>normalized["date"]\<close>\<close>
  "resolve_dates E work dcol =
     (case dcol of
        None \<Rightarrow> Inr (replicate (length (rows work)) None)
      | Some c \<Rightarrow>
          if c = [] then Inr (replicate (length (rows work)) None)
          else
            try_bind (datetime_series E True work c) (\<lambda>parsed_dates.
              if (case notna_mean parsed_dates of None \<Rightarrow> False | Some m \<Rightarrow> m < 3 / 10)
              then datetime_series E False work c
              else Inr parsed_dates))"

definition type_credit_words :: "string list" where
  "type_credit_words = [''cr'', ''credit'', ''dep'', ''salary'', ''refund'']"

definition type_debit_words :: "string list" where
  "type_debit_words = [''dr'', ''debit'', ''with'', ''pay'', ''purchase'']"

definition desc_credit_words :: "string list" where
  "desc_credit_words = [''credit'', ''salary'', ''deposit'', ''refund'', ''received'']"

definition desc_debit_words :: "string list" where
  "desc_debit_words = [''debit'', ''withdraw'', ''payment'', ''purchase'', ''spent'']"

definition classify :: "string list \<Rightarrow> string list \<Rightarrow> string \<Rightarrow> string" where
  \<comment> \<open>\<open>np.where(s.contains(credit), "credit", np.where(s.contains(debit), "debit", "debit"))\<close>\<close>
  "classify cw dw s =
     (if contains_any cw s then ''credit'' else if contains_any dw s then ''debit'' else ''debit'')"

definition dual_amounts ::
  "env \<Rightarrow> frame \<Rightarrow> string \<Rightarrow> string \<Rightarrow> error + (real option list \<times> string list)" where
  \<comment> \<open>the branch \<open>if debit_col and credit_col\<close>: amounts and types\<close>
  "dual_amounts E work dc cc =
     try_bind (numeric_series E work dc) (\<lambda>dn.
     try_bind (numeric_series E work cc) (\<lambda>cn.
       let debit = map (\<lambda>v. \<bar>case v of None \<Rightarrow> 0 | Some x \<Rightarrow> x\<bar>) dn;
           credit = map (\<lambda>v. \<bar>case v of None \<Rightarrow> 0 | Some x \<Rightarrow> x\<bar>) cn
       in Inr (map (\<lambda>(c, b). Some (if c > 0 then c else b)) (zip credit debit),
               map (\<lambda>(c, b). if c > 0 then ''credit'' else if b > 0 then ''debit'' else ''debit'')
                 (zip credit debit))))"

definition fallback_amount_col :: "env \<Rightarrow> frame \<Rightarrow> detected \<Rightarrow> error + string option" where
  \<comment> \<open>\<open>amount_col\<close> after \<open>if amount_col is None: amount_col = _best_numeric_column(...)\<close>\<close>
  "fallback_amount_col E work d =
     (if amount_col d = None
      then best_numeric_column E work
             (filter (\<lambda>c. c \<noteq> []) (List.map_filter id [balance_col d, date_col d]))
      else Inr (amount_col d))"

definition raw_amounts :: "env \<Rightarrow> frame \<Rightarrow> string option \<Rightarrow> error + real option list" where
  \<comment> \<open>\<open>_to_numeric(work[amount_col]) if amount_col else pd.Series(np.nan, index=work.index)\<close>\<close>
  "raw_amounts E work acol =
     (case acol of
        Some ac \<Rightarrow>
          if ac \<noteq> [] then numeric_series E work ac
          else Inr (replicate (length (rows work)) None)
      | None \<Rightarrow> Inr (replicate (length (rows work)) None))"

definition sign_type :: "real option \<Rightarrow> string" where
  \<comment> \<open>one value of \<open>np.where(amount < 0, "debit", "credit")\<close>; NaN is not less than 0\<close>
  "sign_type a = (if (case a of None \<Rightarrow> False | Some x \<Rightarrow> x < 0) then ''debit'' else ''credit'')"

definition resolve_types :: "env \<Rightarrow> frame \<Rightarrow> detected \<Rightarrow> real option list \<Rightarrow> error + string list" where
  \<comment> \<open>\<open>normalized["type"]\<close> in the branch of a single amount column; the last argument is
      \<open>amount\<close>, the raw series before \<open>abs\<close>\<close>
  "resolve_types E work d amt =
     (case type_col d of
        Some tc \<Rightarrow>
          try_bind (text_series E work tc) (\<lambda>tv.
            Inr (map (\<lambda>s. classify type_credit_words type_debit_words (lower (strip s))) tv))
      | None \<Rightarrow>
          (case description_col d of
             Some dc \<Rightarrow>
               try_bind (text_series E work dc) (\<lambda>desc.
                 Inr (map (\<lambda>s. classify desc_credit_words desc_debit_words (lower s)) desc))
           | None \<Rightarrow> Inr (map sign_type amt)))"

definition single_amounts ::
  "env \<Rightarrow> frame \<Rightarrow> detected \<Rightarrow> error + (string option \<times> real option list \<times> string list)" where
  \<comment> \<open>the \<open>else\<close> branch: the amount column in use, amounts and types\<close>
  "single_amounts E work d =
     try_bind (fallback_amount_col E work d) (\<lambda>acol.
     try_bind (raw_amounts E work acol) (\<lambda>amt.
     try_bind (resolve_types E work d amt) (\<lambda>types.
       Inr (acol, map (map_option abs) amt, types))))"

definition resolve_amounts ::
  "env \<Rightarrow> frame \<Rightarrow> detected \<Rightarrow> error + (string option \<times> real option list \<times> string list)" where
  \<comment> \<open>the columns \<open>normalized["amount"]\<close> and \<open>normalized["type"]\<close>, with the amount
      column in use; a label found by \<open>_find_column\<close> is never empty, so it is true\<close>
  "resolve_amounts E work d =
     (case debit_col d of
        Some dc \<Rightarrow>
          (case credit_col d of
             Some cc \<Rightarrow>
               try_bind (dual_amounts E work dc cc) (\<lambda>(amounts, types).
                 Inr (amount_col d, amounts, types))
           | None \<Rightarrow> single_amounts E work d)
      | None \<Rightarrow> single_amounts E work d)"

definition resolve_balances :: "env \<Rightarrow> frame \<Rightarrow> detected \<Rightarrow> error + real option list" where
  \<comment> \<open>the column \<open>normalized["balance"]\<close>\<close>
  "resolve_balances E work d =
     (case balance_col d of
        Some bc \<Rightarrow> numeric_series E work bc
      | None \<Rightarrow> Inr (replicate (length (rows work)) None))"

definition resolve_descriptions :: "env \<Rightarrow> frame \<Rightarrow> detected \<Rightarrow> error + string list" where
  \<comment> \<open>the column \<open>normalized["description"]\<close>\<close>
  "resolve_descriptions E work d =
     (case description_col d of
        Some dc \<Rightarrow> try_bind (text_series E work dc) (\<lambda>tv. Inr (map strip tv))
      | None \<Rightarrow> Inr (replicate (length (rows work)) []))"

definition detect_columns :: "string list \<Rightarrow> detected" where
  \<comment> \<open>the seven calls of \<open>_find_column\<close> on the stripped labels\<close>
  "detect_columns cols =
     \<lparr>date_col = find_column cols date_keys,
      amount_col = find_column cols amount_keys,
      debit_col = find_column cols debit_keys,
      credit_col = find_column cols credit_keys,
      type_col = find_column cols type_keys,
      balance_col = find_column cols balance_keys,
      description_col = find_column cols description_keys\<rparr>"

definition coerce_type :: "string \<Rightarrow> string" where
  \<comment> \<open>\<open>.str.lower()\<close>, then any value other than credit and debit becomes debit\<close>
  "coerce_type ty = (let l = lower ty in if l \<in> {''credit'', ''debit''} then l else ''debit'')"

definition canonical_rows ::
  "timestamp option list \<Rightarrow> real option list \<Rightarrow> string list \<Rightarrow> real option list \<Rightarrow> string list
     \<Rightarrow> txn list" where
  \<comment> \<open>the five columns of \<open>normalized\<close> row by row, after \<open>dropna(subset=["amount"])\<close>,
      \<open>fillna(0)\<close> on the amount and the coercion of the type\<close>
  "canonical_rows dates amounts types balances descriptions =
     map (\<lambda>(dt, a, ty, b, ds).
            \<lparr>date = dt, amount = (case a of None \<Rightarrow> 0 | Some x \<Rightarrow> x), tx_type = coerce_type ty,
             balance = b, description = ds\<rparr>)
       (filter (\<lambda>(dt, a, ty, b, ds). a \<noteq> None)
          (zip dates (zip amounts (zip types (zip balances descriptions)))))"

definition normalize_statement :: "env \<Rightarrow> frame \<Rightarrow> error + (txn list \<times> detected)" where
  "normalize_statement E df =
     (let work = df\<lparr>columns := map strip (columns df)\<rparr>;
          d = detect_columns (columns work)
      in
      try_bind (resolve_dates E work (date_col d)) (\<lambda>dates.
      try_bind (resolve_amounts E work d) (\<lambda>(acol, amounts, types).
      try_bind (resolve_balances E work d) (\<lambda>balances.
      try_bind (resolve_descriptions E work d) (\<lambda>descriptions.
        Inr (canonical_rows dates amounts types balances descriptions,
             d\<lparr>amount_col :=
                  (if debit_col d \<noteq> None \<and> credit_col d \<noteq> None then None else acol)\<rparr>))))))"

subsection \<open>Aggregate summarizer\<close>

record summary =
  monthly_income_estimate :: real
  monthly_expense_estimate :: real
  avg_monthly_balance :: real
  income_volatility_index :: real
  upi_transaction_frequency :: nat

definition zero_summary :: summary where
  "zero_summary =
     \<lparr>monthly_income_estimate = 0, monthly_expense_estimate = 0, avg_monthly_balance = 0,
      income_volatility_index = 0, upi_transaction_frequency = 0\<rparr>"

definition mean :: "real list \<Rightarrow> real" where
  "mean xs = sum_list xs / real (length xs)"

definition std0 :: "real list \<Rightarrow> real" where
  \<comment> \<open>\<open>series.std(ddof=0)\<close>: the population standard deviation\<close>
  "std0 xs = sqrt (sum_list (map (\<lambda>x. (x - mean xs)\<^sup>2) xs) / real (length xs))"

definition upi_words :: "string list" where
  "upi_words = [''upi'', ''gpay'', ''phonepe'', ''paytm'', ''bhim'']"

definition summarize :: "txn list \<Rightarrow> detected \<Rightarrow> summary" where
  \<comment> \<open>the part of \<open>analyze_bank_statement\<close> after the two early returns\<close>
  "summarize df det =
     (let credit = map (\<lambda>t. \<bar>amount t\<bar>) (filter (\<lambda>t. tx_type t = ''credit'') df);
          debit = map (\<lambda>t. \<bar>amount t\<bar>) (filter (\<lambda>t. tx_type t = ''debit'') df);
          monthly_income = (if credit \<noteq> [] then sum_list credit else 0);
          monthly_expenses = (if debit \<noteq> [] then sum_list debit else 0);
          present = List.map_filter balance df;
          avg_balance = (if present \<noteq> [] then mean present else 0);
          income_volatility = (if length credit > 1 then std0 credit else 0);
          desc_text = map (\<lambda>t. lower (description t)) df;
          upi_frequency =
            (if description_col det \<noteq> None
             then length (filter (contains_any upi_words) desc_text)
             else length (filter (\<lambda>t. tx_type t = ''debit'') df))
      in \<lparr>monthly_income_estimate = py_round monthly_income 2,
          monthly_expense_estimate = py_round monthly_expenses 2,
          avg_monthly_balance = py_round avg_balance 2,
          income_volatility_index = py_round income_volatility 4,
          upi_transaction_frequency = upi_frequency\<rparr>)"

definition analyze_bank_statement :: "env \<Rightarrow> bytes \<Rightarrow> string option \<Rightarrow> error + summary" where
  "analyze_bank_statement E contents filename =
     (case load_statement_dataframe E contents filename of
        (raw_df, _) \<Rightarrow>
          if frame_empty raw_df then Inr zero_summary
          else
            (case normalize_statement E raw_df of
               Inl e \<Rightarrow> Inl e
             | Inr (df, det) \<Rightarrow>
                 if df = [] then Inr zero_summary else Inr (summarize df det)))"

section \<open>Properties\<close>

subsection \<open>Environments used for the concrete instances\<close>

definition plain_env :: env where
  \<comment> \<open>every structured reader fails, the optional parsers are absent, ASCII decodes as itself\<close>
  "plain_env = \<lparr>decode_utf8_sig = Some, decode_utf8 = Some, decode_utf8_ignore = id,
     read_csv = (\<lambda>_. Raised), read_excel = (\<lambda>_. Raised), read_json = (\<lambda>_. Raised),
     read_xml = (\<lambda>_. Raised), tables_from_pdf = (\<lambda>_. Returned None),
     tables_from_docx = (\<lambda>_. Returned None), to_datetime = (\<lambda>_ _. None),
     date_search = (\<lambda>_. None), float_str = (\<lambda>_. ''nan'')\<rparr>"

definition csv_env :: "bytes \<Rightarrow> frame \<Rightarrow> env" where
  \<comment> \<open>as \<open>plain_env\<close>, but \<open>read_csv\<close> parses the one document into the one table\<close>
  "csv_env doc table = plain_env\<lparr>read_csv := (\<lambda>b. if b = doc then Returned table else Raised)\<rparr>"

definition signed_csv :: bytes where
  "signed_csv = ''Date,Value'' @ [CHR 0x0A] @ ''2026-02-01,100'' @ [CHR 0x0A]
     @ ''2026-02-02,-200'' @ [CHR 0x0A] @ ''2026-02-03,pending'' @ [CHR 0x0A]"

definition signed_frame :: frame where
  \<comment> \<open>the table of \<open>signed_csv\<close>: the column Value holds strings, one of them no number\<close>
  "signed_frame = \<lparr>columns = [''Date'', ''Value''],
     rows = [[Text ''2026-02-01'', Text ''100''], [Text ''2026-02-02'', Text ''-200''],
             [Text ''2026-02-03'', Text ''pending'']]\<rparr>"

definition signed_txns :: "txn list" where
  "signed_txns =
     [\<lparr>date = None, amount = 100, tx_type = ''credit'', balance = None, description = []\<rparr>,
      \<lparr>date = None, amount = 200, tx_type = ''debit'', balance = None, description = []\<rparr>]"

definition signed_detected :: detected where
  "signed_detected =
     \<lparr>date_col = Some ''Date'', amount_col = Some ''Value'', debit_col = None, credit_col = None,
      type_col = None, balance_col = None, description_col = None\<rparr>"


definition positive_frame :: frame where
  \<comment> \<open>the table of \<open>positive_csv\<close>: the column Value holds integers\<close>
  "positive_frame = \<lparr>columns = [''Date'', ''Value''],
     rows = [[Text ''2026-02-01'', Whole 100], [Text ''2026-02-02'', Whole 200]]\<rparr>"












definition agree_cells :: "env \<Rightarrow> env \<Rightarrow> frame \<Rightarrow> bool" where
  \<comment> \<open>the two environments give every cell of the table the same text\<close>
  "agree_cells E E' df = (\<forall>r\<in>set (rows df). \<forall>c\<in>set r. cell_str E c = cell_str E' c)"

definition same_library_on :: "env \<Rightarrow> env \<Rightarrow> bytes \<Rightarrow> bool" where
  \<comment> \<open>two runs see the same library: the same results of the calls on these bytes, and
      the same conversions of cells and lines\<close>
  "same_library_on E E' contents =
     (decode_utf8_sig E contents = decode_utf8_sig E' contents
      \<and> decode_utf8 E contents = decode_utf8 E' contents
      \<and> decode_utf8_ignore E contents = decode_utf8_ignore E' contents
      \<and> read_csv E contents = read_csv E' contents
      \<and> read_excel E contents = read_excel E' contents
      \<and> read_json E contents = read_json E' contents
      \<and> read_xml E contents = read_xml E' contents
      \<and> tables_from_pdf E contents = tables_from_pdf E' contents
      \<and> tables_from_docx E contents = tables_from_docx E' contents
      \<and> to_datetime E = to_datetime E'
      \<and> date_search E = date_search E'
      \<and> float_str E = float_str E')"

definition other_env :: env where
  \<comment> \<open>as \<open>csv_env signed_csv signed_frame\<close> on \<open>signed_csv\<close>, different on other bytes\<close>
  "other_env = (csv_env signed_csv signed_frame)
     \<lparr>read_json := (\<lambda>b. if b = signed_csv then Raised else Returned positive_frame)\<rparr>"


definition scenario_csv :: bytes where
  "scenario_csv = ''Txn Date,Narration,CR Amt,DR Amt,Running Bal'' @ [CHR 0x0A]
     @ ''2026-02-01,Salary credit,45000,0,52000'' @ [CHR 0x0A]
     @ ''2026-02-02,UPI grocery payment,0,1200,50800'' @ [CHR 0x0A]
     @ ''2026-02-03,UPI fuel payment,0,800,50000'' @ [CHR 0x0A]"

definition scenario_frame :: frame where
  \<comment> \<open>the table of \<open>scenario_csv\<close>: two columns of strings, three of integers\<close>
  "scenario_frame = \<lparr>columns = [''Txn Date'', ''Narration'', ''CR Amt'', ''DR Amt'', ''Running Bal''],
     rows = [[Text ''2026-02-01'', Text ''Salary credit'', Whole 45000, Whole 0, Whole 52000],
             [Text ''2026-02-02'', Text ''UPI grocery payment'', Whole 0, Whole 1200, Whole 50800],
             [Text ''2026-02-03'', Text ''UPI fuel payment'', Whole 0, Whole 800, Whole 50000]]\<rparr>"

definition scenario_txns :: "timestamp option \<Rightarrow> timestamp option \<Rightarrow> timestamp option \<Rightarrow> txn list" where
  "scenario_txns d1 d2 d3 =
     [\<lparr>date = d1, amount = 45000, tx_type = ''credit'', balance = Some 52000,
       description = ''Salary credit''\<rparr>,
      \<lparr>date = d2, amount = 1200, tx_type = ''debit'', balance = Some 50800,
       description = ''UPI grocery payment''\<rparr>,
      \<lparr>date = d3, amount = 800, tx_type = ''debit'', balance = Some 50000,
       description = ''UPI fuel payment''\<rparr>]"

definition scenario_detected :: detected where
  \<comment> \<open>what the seven searches find; \<open>amt\<close> occurs in \<open>cramt\<close>\<close>
  "scenario_detected =
     \<lparr>date_col = Some ''Txn Date'', amount_col = Some ''CR Amt'', debit_col = Some ''DR Amt'',
      credit_col = Some ''CR Amt'', type_col = None, balance_col = Some ''Running Bal'',
      description_col = Some ''Narration''\<rparr>"

subsection \<open>Lists\<close>

lemma find_append_None:
  "find P xs = None \<Longrightarrow> find P (xs @ ys) = find P ys"
  by (induction xs) (auto split: if_splits)

lemma find_mem_Some:
  "x \<in> set xs \<Longrightarrow> P x \<Longrightarrow> \<exists>y. find P xs = Some y"
  by (induction xs) auto

subsection \<open>Header matching\<close>

lemma normalize_statement_date_col:
  "normalize_statement E df = Inr (tx, det)
     \<Longrightarrow> date_col det = find_column (map strip (columns df)) date_keys"
  by (auto simp: normalize_statement_def detect_columns_def Let_def try_bind_def
        split: sum.splits prod.splits)

lemma date_headers:
  "h \<in> {''Txn Date'', ''TXN_DATE'', '' txn date ''}
     \<Longrightarrow> contains ''date'' (normalize_col_name (strip h))"
  by (auto simp: normalize_col_name_def strip_def is_space_def lower_def is_alnum_lower_def
        is_digit_def)

text \<open>
  Claim C7. Header matching ignores case and surrounding white space: each of the headers
  "Txn Date", "TXN\_DATE" and " txn date " normalizes to \<open>txndate\<close>; a table that has one of
  them resolves the date role; the role goes to that header (stripped) when no column before
  it resolves to the date role; and the statement normalizer reports exactly this column.
\<close>

theorem header_matching_insensitive:
  assumes h: "h \<in> {''Txn Date'', ''TXN_DATE'', '' txn date ''}"
    and mem: "h \<in> set (columns df)"
  shows "normalize_col_name h = ''txndate''
    \<and> (\<exists>c. find_column (map strip (columns df)) date_keys = Some c)
    \<and> (\<forall>pre post. columns df = pre @ h # post \<and> find_column (map strip pre) date_keys = None
          \<longrightarrow> find_column (map strip (columns df)) date_keys = Some (strip h))
    \<and> (\<forall>tx det. normalize_statement E df = Inr (tx, det)
          \<longrightarrow> date_col det = find_column (map strip (columns df)) date_keys)"
proof -
  let ?P = "\<lambda>col. contains ''date'' (normalize_col_name col)"
  have hit: "?P (strip h)"
    using h by (rule date_headers)
  have n: "normalize_col_name h = ''txndate''"
    using h by (auto simp: normalize_col_name_def strip_def is_space_def lower_def
          is_alnum_lower_def is_digit_def)
  have "strip h \<in> set (map strip (columns df))"
    using mem by simp
  then obtain y where y: "find ?P (map strip (columns df)) = Some y"
    using hit find_mem_Some [of "strip h" "map strip (columns df)" ?P] by blast
  then have some: "\<exists>c. find_column (map strip (columns df)) date_keys = Some c"
    by (simp add: date_keys_def)
  have first: "find_column (map strip (columns df)) date_keys = Some (strip h)"
    if c: "columns df = pre @ h # post" and p: "find_column (map strip pre) date_keys = None"
    for pre post
  proof -
    have "find ?P (map strip pre) = None"
      using p by (simp add: date_keys_def split: option.splits)
    then have "find ?P (map strip pre @ strip h # map strip post) = Some (strip h)"
      using hit by (simp add: find_append_None)
    then show ?thesis
      by (simp add: c date_keys_def)
  qed
  show ?thesis
    using n some first normalize_statement_date_col by blast
qed

theorem header_matching_insensitive_witness:
  "''TXN_DATE'' \<in> {''Txn Date'', ''TXN_DATE'', '' txn date ''}
   \<and> ''TXN_DATE'' \<in> set (columns \<lparr>columns = [''Narration'', ''TXN_DATE''], rows = []\<rparr>)
   \<and> find_column (map strip (columns \<lparr>columns = [''Narration'', ''TXN_DATE''], rows = []\<rparr>))
        date_keys = Some ''TXN_DATE''"
proof -
  let ?df = "\<lparr>columns = [''Narration'', ''TXN_DATE''], rows = []\<rparr>"
  have a: "''TXN_DATE'' \<in> {''Txn Date'', ''TXN_DATE'', '' txn date ''}" by simp
  have b: "''TXN_DATE'' \<in> set (columns ?df)" by simp
  have c: "columns ?df = [''Narration''] @ ''TXN_DATE'' # []" by simp
  have d: "find_column (map strip [''Narration'']) date_keys = None"
    by (simp add: date_keys_def normalize_col_name_def strip_def is_space_def lower_def
          is_alnum_lower_def is_digit_def)
  have e: "strip ''TXN_DATE'' = ''TXN_DATE''"
    by (simp add: strip_def is_space_def)
  from header_matching_insensitive [OF a b, where E = plain_env] c d
  have "find_column (map strip (columns ?df)) date_keys = Some (strip ''TXN_DATE'')"
    by blast
  then show ?thesis using a b e by simp
qed

subsection \<open>Structure of the statement normalizer\<close>

lemma try_bind_Inr:
  "try_bind m f = Inr y \<longleftrightarrow> (\<exists>x. m = Inr x \<and> f x = Inr y)"
  by (cases m) (simp_all add: try_bind_def)

lemma numeric_series_length:
  "numeric_series E df c = Inr vs \<Longrightarrow> length vs = length (rows df)"
  by (auto simp: numeric_series_def select_def Let_def split: selection.splits if_splits)

lemma text_series_length:
  "text_series E df c = Inr vs \<Longrightarrow> length vs = length (rows df)"
  by (auto simp: text_series_def select_def Let_def split: selection.splits if_splits)

lemma datetime_series_length:
  "datetime_series E f df c = Inr vs \<Longrightarrow> length vs = length (rows df)"
  by (auto simp: datetime_series_def select_def Let_def split: selection.splits if_splits)

lemma resolve_dates_length:
  "resolve_dates E df c = Inr vs \<Longrightarrow> length vs = length (rows df)"
  by (auto simp: resolve_dates_def try_bind_Inr dest: datetime_series_length
        split: option.splits if_splits)

lemma dual_amounts_length:
  "dual_amounts E df dc cc = Inr (amounts, types)
     \<Longrightarrow> length amounts = length (rows df) \<and> length types = length (rows df)"
  by (auto simp: dual_amounts_def try_bind_Inr Let_def dest!: numeric_series_length)


lemma raw_amounts_length:
  "raw_amounts E df acol = Inr amt \<Longrightarrow> length amt = length (rows df)"
  by (auto simp: raw_amounts_def dest: numeric_series_length split: option.splits if_splits)

lemma resolve_types_length:
  "resolve_types E df d amt = Inr types \<Longrightarrow> length amt = length (rows df) \<Longrightarrow> length types = length (rows df)"
  by (auto simp: resolve_types_def try_bind_Inr dest: text_series_length split: option.splits)

lemma single_amounts_length:
  "single_amounts E df d = Inr (acol, amounts, types)
     \<Longrightarrow> length amounts = length (rows df) \<and> length types = length (rows df)"
  by (auto simp: single_amounts_def try_bind_Inr dest: raw_amounts_length resolve_types_length)


lemma resolve_amounts_length:
  "resolve_amounts E df d = Inr (acol, amounts, types)
     \<Longrightarrow> length amounts = length (rows df) \<and> length types = length (rows df)"
  by (auto simp: resolve_amounts_def try_bind_Inr dest: dual_amounts_length single_amounts_length
        split: option.splits)


lemma resolve_balances_length:
  "resolve_balances E df d = Inr vs \<Longrightarrow> length vs = length (rows df)"
  by (auto simp: resolve_balances_def dest: numeric_series_length split: option.splits)

lemma resolve_descriptions_length:
  "resolve_descriptions E df d = Inr vs \<Longrightarrow> length vs = length (rows df)"
  by (auto simp: resolve_descriptions_def try_bind_Inr dest: text_series_length split: option.splits)

lemma normalize_statement_Inr:
  assumes "normalize_statement E df = Inr (tx, det)"
  obtains dates acol amounts types balances descriptions where
    "resolve_amounts E (df\<lparr>columns := map strip (columns df)\<rparr>)
        (detect_columns (map strip (columns df))) = Inr (acol, amounts, types)"
    "resolve_balances E (df\<lparr>columns := map strip (columns df)\<rparr>)
        (detect_columns (map strip (columns df))) = Inr balances"
    "tx = canonical_rows dates amounts types balances descriptions"
    "det = (detect_columns (map strip (columns df)))\<lparr>amount_col :=
       (if debit_col (detect_columns (map strip (columns df))) \<noteq> None
           \<and> credit_col (detect_columns (map strip (columns df))) \<noteq> None then None else acol)\<rparr>"
    "length dates = length (rows df)" "length amounts = length (rows df)"
    "length types = length (rows df)" "length balances = length (rows df)"
    "length descriptions = length (rows df)"
proof -
  let ?w = "df\<lparr>columns := map strip (columns df)\<rparr>"
  let ?d = "detect_columns (map strip (columns df))"
  from assms obtain dates r balances descriptions where
    1: "resolve_dates E ?w (date_col ?d) = Inr dates" and
    2: "resolve_amounts E ?w ?d = Inr r" and
    3: "resolve_balances E ?w ?d = Inr balances" and
    4: "resolve_descriptions E ?w ?d = Inr descriptions" and
    5: "(case r of (acol, amounts, types) \<Rightarrow>
          Inr (canonical_rows dates amounts types balances descriptions,
             ?d\<lparr>amount_col := (if debit_col ?d \<noteq> None \<and> credit_col ?d \<noteq> None then None else acol)\<rparr>))
        = (Inr (tx, det) :: error + (txn list \<times> detected))"
    by (auto simp: normalize_statement_def Let_def try_bind_Inr)
  obtain acol amounts types where r: "r = (acol, amounts, types)"
    by (cases r) auto
  have l: "length dates = length (rows df)" "length amounts = length (rows df)"
    "length types = length (rows df)" "length balances = length (rows df)"
    "length descriptions = length (rows df)"
    using resolve_dates_length [OF 1] resolve_amounts_length [OF 2 [unfolded r]]
      resolve_balances_length [OF 3] resolve_descriptions_length [OF 4] by simp_all
  show thesis
    using that [of acol amounts types balances dates descriptions] 2 3 5 l
    by (simp add: r)
qed

subsection \<open>Canonical rows, sums and rounding\<close>

lemma canonical_rows_Nil [simp]: "canonical_rows ds [] ts bs des = []"
  by (simp add: canonical_rows_def)

lemma canonical_rows_Cons:
  "canonical_rows (dt # ds) (a # as) (ty # ts) (b # bs) (de # des) =
     (case a of
        None \<Rightarrow> canonical_rows ds as ts bs des
      | Some x \<Rightarrow> \<lparr>date = dt, amount = x, tx_type = coerce_type ty, balance = b, description = de\<rparr>
                   # canonical_rows ds as ts bs des)"
  by (simp add: canonical_rows_def split: option.splits)

lemma coerce_type_cases: "coerce_type ty = ''credit'' \<or> coerce_type ty = ''debit''"
  by (auto simp: coerce_type_def Let_def)




lemma canonical_rows_pairs:
  "length ds = length as \<Longrightarrow> length ts = length as \<Longrightarrow> length bs = length as
   \<Longrightarrow> length des = length as
   \<Longrightarrow> map (\<lambda>t. (amount t, tx_type t)) (canonical_rows ds as ts bs des)
       = List.map_filter (\<lambda>(a, ty). map_option (\<lambda>x. (x, coerce_type ty)) a) (zip as ts)"
proof (induction as arbitrary: ds ts bs des)
  case Nil
  then show ?case by simp
next
  case (Cons a as)
  from Cons.prems obtain dt ds' ty ts' b bs' de des' where
    e: "ds = dt # ds'" "ts = ty # ts'" "bs = b # bs'" "des = de # des'"
    by (metis length_Suc_conv)
  have l: "length ds' = length as" "length ts' = length as" "length bs' = length as"
    "length des' = length as"
    using Cons.prems by (simp_all add: e)
  show ?case
    using Cons.IH [OF l] by (cases a) (simp_all add: e canonical_rows_Cons)
qed




lemma py_round_zero [simp]: "py_round 0 n = 0"
  by (simp add: py_round_def)





lemma find_column_Nil [simp]: "find_column [] keys = None"
  by (induction keys) simp_all







subsection \<open>Amounts and types of the canonical transactions\<close>

lemma signed_frame_normalize:
  "normalize_statement (csv_env signed_csv signed_frame) signed_frame
     = Inr (signed_txns, signed_detected)"
  by code_simp

lemma signed_frame_load:
  "load_statement_dataframe (csv_env signed_csv signed_frame) signed_csv None
     = (signed_frame, ''csv'')"
  by code_simp

lemma signed_frame_analyze:
  "analyze_bank_statement (csv_env signed_csv signed_frame) signed_csv None
     = Inr \<lparr>monthly_income_estimate = 100, monthly_expense_estimate = 200,
         avg_monthly_balance = 0, income_volatility_index = 0, upi_transaction_frequency = 1\<rparr>"
  by (simp add: analyze_bank_statement_def signed_frame_load signed_frame_normalize)
   (simp add: signed_frame_def frame_empty_def signed_txns_def signed_detected_def summarize_def
      py_round_def List.map_filter_simps)


lemma resolve_amounts_single:
  assumes "resolve_amounts E work d = Inr (acol, amounts, types)"
    and "\<not> (debit_col d \<noteq> None \<and> credit_col d \<noteq> None)"
  shows "single_amounts E work d = Inr (acol, amounts, types)"
  using assms by (auto simp: resolve_amounts_def split: option.splits)






subsection \<open>The sign fallback\<close>

lemma sign_type_coerce:
  "coerce_type (sign_type a) = sign_type a"
  by (simp add: coerce_type_def sign_type_def lower_def)

lemma rule4_pairs:
  "List.map_filter (\<lambda>(a, ty). map_option (\<lambda>x. (x, coerce_type ty)) a)
      (zip (map (map_option abs) amt) (map sign_type amt))
   = map (\<lambda>x. (\<bar>x\<bar>, if x < 0 then ''debit'' else ''credit'')) (List.map_filter id amt)"
proof (induction amt)
  case Nil
  show ?case by simp
next
  case (Cons a amt)
  show ?case
  proof (cases a)
    case None
    then show ?thesis using Cons by simp
  next
    case (Some x)
    have "coerce_type (sign_type (Some x)) = (if x < 0 then ''debit'' else ''credit'')"
      by (simp add: sign_type_coerce) (simp add: sign_type_def)
    then show ?thesis using Cons Some by simp
  qed
qed

lemma rule4_rows:
  assumes n: "normalize_statement E df = Inr (tx, det)"
    and nd: "\<not> (debit_col det \<noteq> None \<and> credit_col det \<noteq> None)"
    and nt: "type_col det = None" and ns: "description_col det = None"
  shows "\<exists>amt. raw_amounts E (df\<lparr>columns := map strip (columns df)\<rparr>) (amount_col det) = Inr amt
    \<and> map (\<lambda>t. (amount t, tx_type t)) tx
        = map (\<lambda>x. (\<bar>x\<bar>, if x < 0 then ''debit'' else ''credit'')) (List.map_filter id amt)"
proof -
  let ?w = "df\<lparr>columns := map strip (columns df)\<rparr>"
  let ?d = "detect_columns (map strip (columns df))"
  from n obtain dates acol amounts types balances descriptions where
    r: "resolve_amounts E ?w ?d = Inr (acol, amounts, types)" and
    t: "tx = canonical_rows dates amounts types balances descriptions" and
    d: "det = ?d\<lparr>amount_col :=
       (if debit_col ?d \<noteq> None \<and> credit_col ?d \<noteq> None then None else acol)\<rparr>" and
    l: "length dates = length (rows df)" "length amounts = length (rows df)"
      "length types = length (rows df)" "length balances = length (rows df)"
      "length descriptions = length (rows df)"
    by (rule normalize_statement_Inr)
  from nd have c: "\<not> (debit_col ?d \<noteq> None \<and> credit_col ?d \<noteq> None)"
    by (simp add: d)
  then have a: "amount_col det = acol"
    by (auto simp: d)
  have td: "type_col ?d = None" "description_col ?d = None"
    using nt ns by (simp_all add: d)
  from r c have "single_amounts E ?w ?d = Inr (acol, amounts, types)"
    by (rule resolve_amounts_single)
  then obtain amt where raw: "raw_amounts E ?w acol = Inr amt"
    and am: "amounts = map (map_option abs) amt"
    and ty: "resolve_types E ?w ?d amt = Inr types"
    by (auto simp: single_amounts_def try_bind_Inr)
  from ty have ty': "types = map sign_type amt"
    by (simp add: resolve_types_def td)
  have "map (\<lambda>t. (amount t, tx_type t)) tx
      = List.map_filter (\<lambda>(a, ty). map_option (\<lambda>x. (x, coerce_type ty)) a) (zip amounts types)"
    unfolding t using l by (intro canonical_rows_pairs) simp_all
  also have "\<dots> = map (\<lambda>x. (\<bar>x\<bar>, if x < 0 then ''debit'' else ''credit'')) (List.map_filter id amt)"
    unfolding am ty' by (rule rule4_pairs)
  finally show ?thesis
    using raw unfolding a by blast
qed





lemma summarize_income:
  "monthly_income_estimate (summarize df det)
     = py_round (sum_list (map (\<lambda>t. \<bar>amount t\<bar>) (filter (\<lambda>t. tx_type t = ''credit'') df))) 2"
  by (simp add: summarize_def Let_def)

lemma summarize_expense:
  "monthly_expense_estimate (summarize df det)
     = py_round (sum_list (map (\<lambda>t. \<bar>amount t\<bar>) (filter (\<lambda>t. tx_type t = ''debit'') df))) 2"
  by (simp add: summarize_def Let_def)

lemma summarize_balance:
  "avg_monthly_balance (summarize df det)
     = py_round (if List.map_filter balance df \<noteq> [] then mean (List.map_filter balance df) else 0) 2"
  by (simp add: summarize_def Let_def)


lemma summarize_upi:
  "upi_transaction_frequency (summarize df det)
     = (if description_col det \<noteq> None
        then length (filter (contains_any upi_words) (map (\<lambda>t. lower (description t)) df))
        else length (filter (\<lambda>t. tx_type t = ''debit'') df))"
  by (simp add: summarize_def Let_def)



text \<open>
  Claim C4. When no pair of debit and credit columns, no type column and no description
  column resolve, the type of a row follows the sign of its raw amount, the number read
  from the amount column before the absolute value is taken: negative gives debit, any
  other number gives credit. The canonical transactions are the rows with a number, in
  order, each with the absolute value and the type of that sign.
\<close>

theorem sign_fallback_types:
  assumes n: "normalize_statement E df = Inr (tx, det)"
    and nd: "\<not> (debit_col det \<noteq> None \<and> credit_col det \<noteq> None)"
    and nt: "type_col det = None" and ns: "description_col det = None"
  shows "\<exists>amt. raw_amounts E (df\<lparr>columns := map strip (columns df)\<rparr>) (amount_col det) = Inr amt
    \<and> map (\<lambda>t. (amount t, tx_type t)) tx
        = map (\<lambda>x. (\<bar>x\<bar>, if x < 0 then ''debit'' else ''credit'')) (List.map_filter id amt)"
  using n nd nt ns by (rule rule4_rows)

theorem sign_fallback_types_witness:
  "normalize_statement (csv_env signed_csv signed_frame) signed_frame
       = Inr (signed_txns, signed_detected)
   \<and> \<not> (debit_col signed_detected \<noteq> None \<and> credit_col signed_detected \<noteq> None)
   \<and> type_col signed_detected = None \<and> description_col signed_detected = None
   \<and> (\<exists>amt. raw_amounts (csv_env signed_csv signed_frame)
               (signed_frame\<lparr>columns := map strip (columns signed_frame)\<rparr>)
               (amount_col signed_detected) = Inr amt
        \<and> map (\<lambda>t. (amount t, tx_type t)) signed_txns
            = map (\<lambda>x. (\<bar>x\<bar>, if x < 0 then ''debit'' else ''credit'')) (List.map_filter id amt))"
proof -
  have a: "\<not> (debit_col signed_detected \<noteq> None \<and> credit_col signed_detected \<noteq> None)"
    and b: "type_col signed_detected = None" and c: "description_col signed_detected = None"
    by (simp_all add: signed_detected_def)
  show ?thesis
    using sign_fallback_types [OF signed_frame_normalize a b c] signed_frame_normalize a b c
    by blast
qed




subsection \<open>When the statement normalizer returns\<close>


lemma count_list_distinct:
  "distinct xs \<Longrightarrow> x \<in> set xs \<Longrightarrow> count_list xs x = 1"
  by (induction xs) auto

lemma select_Series:
  "distinct (columns df) \<Longrightarrow> c \<in> set (columns df) \<Longrightarrow> \<exists>vs. select df c = Series vs"
  by (simp add: select_def count_list_distinct)



lemma datetime_series_returns:
  "distinct (columns df) \<Longrightarrow> c \<in> set (columns df) \<Longrightarrow> \<exists>vs. datetime_series E f df c = Inr vs"
  using select_Series [of df c] by (auto simp: datetime_series_def)




lemma resolve_dates_returns:
  assumes "distinct (columns df)" "\<forall>c. dc = Some c \<longrightarrow> c \<in> set (columns df)"
  shows "\<exists>vs. resolve_dates E df dc = Inr vs"
proof (cases dc)
  case None
  then show ?thesis by (simp add: resolve_dates_def)
next
  case (Some c)
  then have m: "c \<in> set (columns df)" using assms(2) by simp
  obtain a where a: "datetime_series E True df c = Inr a"
    using datetime_series_returns [OF assms(1) m] by blast
  obtain b where b: "datetime_series E False df c = Inr b"
    using datetime_series_returns [OF assms(1) m] by blast
  show ?thesis
    by (simp add: resolve_dates_def Some a b try_bind_def)
qed










subsection \<open>Returning a summary\<close>






subsection \<open>Documents without digits\<close>































subsection \<open>Dependence on the library\<close>

lemma cell_at_cases: "cell_at r i \<in> set r \<or> cell_at r i = NaN"
  by (simp add: cell_at_def)

lemma agree_cells_at:
  assumes "agree_cells E E' df" "r \<in> set (rows df)"
  shows "cell_str E (cell_at r i) = cell_str E' (cell_at r i)"
proof (cases "cell_at r i \<in> set r")
  case True
  then show ?thesis using assms by (simp add: agree_cells_def)
next
  case False
  then have "cell_at r i = NaN" using cell_at_cases [of r i] by simp
  then show ?thesis by (simp add: cell_str_def)
qed

lemma agree_cells_columns [simp]:
  "agree_cells E E' (df\<lparr>columns := cs\<rparr>) = agree_cells E E' df"
  by (simp add: agree_cells_def)

lemma to_numeric_cong:
  "cell_str E c = cell_str E' c \<Longrightarrow> to_numeric E c = to_numeric E' c"
  by (simp add: to_numeric_def)

lemma numeric_series_cong:
  "agree_cells E E' df \<Longrightarrow> numeric_series E df c = numeric_series E' df c"
  by (auto simp: numeric_series_def select_def Let_def intro!: to_numeric_cong agree_cells_at)

lemma text_series_cong:
  "agree_cells E E' df \<Longrightarrow> text_series E df c = text_series E' df c"
  by (auto simp: text_series_def select_def Let_def intro!: agree_cells_at)

lemma best_numeric_scan_cong:
  "agree_cells E E' df \<Longrightarrow> best_numeric_scan E df ex cs st = best_numeric_scan E' df ex cs st"
proof (induction cs arbitrary: st)
  case Nil
  show ?case by simp
next
  case (Cons col cs)
  obtain bc bs where st: "st = (bc, bs)" by (cases st)
  show ?case
    using Cons by (simp add: st numeric_series_cong [of E E' df col] split: sum.splits option.splits)
qed

lemma resolve_amounts_cong:
  assumes "agree_cells E E' df"
  shows "resolve_amounts E df d = resolve_amounts E' df d"
proof -
  have 1: "dual_amounts E df dc cc = dual_amounts E' df dc cc" for dc cc
    by (simp add: dual_amounts_def numeric_series_cong [OF assms])
  have 2: "fallback_amount_col E df d = fallback_amount_col E' df d"
    by (simp add: fallback_amount_col_def best_numeric_column_def best_numeric_scan_cong [OF assms])
  have 3: "raw_amounts E df acol = raw_amounts E' df acol" for acol
    by (simp add: raw_amounts_def numeric_series_cong [OF assms] split: option.splits)
  have 4: "resolve_types E df d amt = resolve_types E' df d amt" for amt
    by (simp add: resolve_types_def text_series_cong [OF assms] split: option.splits)
  have 5: "single_amounts E df d = single_amounts E' df d"
    by (simp add: single_amounts_def 2 3 4)
  show ?thesis
    by (simp add: resolve_amounts_def 1 5 split: option.splits)
qed

lemma resolve_balances_cong:
  "agree_cells E E' df \<Longrightarrow> resolve_balances E df d = resolve_balances E' df d"
  by (simp add: resolve_balances_def numeric_series_cong split: option.splits)

lemma resolve_descriptions_cong:
  "agree_cells E E' df \<Longrightarrow> resolve_descriptions E df d = resolve_descriptions E' df d"
  by (simp add: resolve_descriptions_def text_series_cong split: option.splits)

lemma resolve_dates_cong:
  assumes eq: "to_datetime E = to_datetime E'"
  shows "resolve_dates E df dc = resolve_dates E' df dc"
proof -
  have "datetime_series E f df c = datetime_series E' f df c" for f c
    by (simp add: datetime_series_def eq split: selection.splits)
  then show ?thesis
    by (simp add: resolve_dates_def cong: if_cong option.case_cong)
qed

lemma normalize_statement_cong:
  assumes "agree_cells E E' df" "to_datetime E = to_datetime E'"
  shows "normalize_statement E df = normalize_statement E' df"
proof -
  have a: "agree_cells E E' (df\<lparr>columns := map strip (columns df)\<rparr>)"
    using assms(1) by simp
  show ?thesis
    by (simp add: normalize_statement_def resolve_dates_cong [OF assms(2)]
        resolve_amounts_cong [OF a] resolve_balances_cong [OF a] resolve_descriptions_cong [OF a]
        cong: if_cong)
qed

lemma same_library_agree_cells:
  "same_library_on E E' contents \<Longrightarrow> agree_cells E E' df"
  by (auto simp: same_library_on_def agree_cells_def cell_str_def split: cell.splits)

lemma extract_text_transactions_cong:
  assumes d: "date_search E = date_search E'"
  shows "extract_text_transactions E t = extract_text_transactions E' t"
proof -
  have "text_row E = text_row E'"
    by (rule ext) (simp add: text_row_def d Let_def split: list.splits)
  then show ?thesis
    by (simp add: extract_text_transactions_def)
qed

lemma load_statement_dataframe_cong:
  assumes "same_library_on E E' contents"
  shows "load_statement_dataframe E contents filename = load_statement_dataframe E' contents filename"
proof -
  have 1: "decode_bytes E contents = decode_bytes E' contents"
    using assms by (simp add: decode_bytes_def same_library_on_def cong: option.case_cong)
  have 2: "loaders E contents filename = loaders E' contents filename"
    using assms by (simp add: loaders_def same_library_on_def cong: if_cong)
  have 3: "extract_text_transactions E t = extract_text_transactions E' t" for t
    using assms by (intro extract_text_transactions_cong) (simp add: same_library_on_def)
  show ?thesis
    by (simp add: load_statement_dataframe_def 1 2 3 cong: if_cong option.case_cong)
qed

text \<open>
  Claim C8. The result is a function of the bytes, the filename and what the library
  calls return: two invocations with the same bytes and the same filename, in which the
  codecs, the readers and the extractors return the same on these bytes and the
  conversions of cells and lines are the same, give the same output. Nothing else enters:
  the code reads no clock, no random source and no variable that outlives the call.
\<close>

theorem analyze_bank_statement_deterministic:
  assumes "same_library_on E E' contents"
  shows "analyze_bank_statement E contents filename = analyze_bank_statement E' contents filename"
proof -
  have n: "normalize_statement E df = normalize_statement E' df" for df
    using assms same_library_agree_cells [OF assms]
    by (intro normalize_statement_cong) (simp_all add: same_library_on_def)
  show ?thesis
    by (simp add: analyze_bank_statement_def load_statement_dataframe_cong [OF assms] n
        cong: if_cong prod.case_cong)
qed

theorem analyze_bank_statement_deterministic_witness:
  "same_library_on (csv_env signed_csv signed_frame) other_env signed_csv
   \<and> analyze_bank_statement (csv_env signed_csv signed_frame) signed_csv None
       = analyze_bank_statement other_env signed_csv None"
proof -
  have s: "same_library_on (csv_env signed_csv signed_frame) other_env signed_csv"
    by (simp add: same_library_on_def other_env_def csv_env_def plain_env_def)
  show ?thesis
    using analyze_bank_statement_deterministic [OF s] s by blast
qed

subsection \<open>The empty input\<close>






subsection \<open>The scenario of the smoke test\<close>

lemma scenario_numbers:
  "to_numeric E (Whole 45000) = Some 45000" "to_numeric E (Whole 0) = Some 0"
  "to_numeric E (Whole 1200) = Some 1200" "to_numeric E (Whole 800) = Some 800"
  "to_numeric E (Whole 52000) = Some 52000" "to_numeric E (Whole 50800) = Some 50800"
  "to_numeric E (Whole 50000) = Some 50000"
  by (simp_all add: to_numeric_def clean_numeric_def cell_str_def show_int_def show_nat.simps
      digit_char_def is_digit_def parse_decimal_def parse_unsigned_def digits_val_def
      digit_val_def)

lemma scenario_series:
  "numeric_series E scenario_frame ''CR Amt'' = Inr [Some 45000, Some 0, Some 0]"
  "numeric_series E scenario_frame ''DR Amt'' = Inr [Some 0, Some 1200, Some 800]"
  "numeric_series E scenario_frame ''Running Bal'' = Inr [Some 52000, Some 50800, Some 50000]"
  by (simp_all add: numeric_series_def select_def scenario_frame_def cell_at_def
      scenario_numbers)

lemma scenario_amounts:
  "resolve_amounts E scenario_frame scenario_detected
     = Inr (Some ''CR Amt'', [Some 45000, Some 1200, Some 800], [''credit'', ''debit'', ''debit''])"
  by (simp add: resolve_amounts_def scenario_detected_def dual_amounts_def try_bind_def
      scenario_series)

lemma scenario_balances:
  "resolve_balances E scenario_frame scenario_detected = Inr [Some 52000, Some 50800, Some 50000]"
  by (simp add: resolve_balances_def scenario_detected_def scenario_series)

lemma scenario_stripped:
  "map strip (columns scenario_frame) = columns scenario_frame"
  by (simp add: scenario_frame_def strip_def is_space_def)

lemma scenario_detect:
  "detect_columns (columns scenario_frame) = scenario_detected"
  by code_simp

lemma scenario_descriptions:
  "resolve_descriptions E scenario_frame scenario_detected
     = Inr [''Salary credit'', ''UPI grocery payment'', ''UPI fuel payment'']"
proof -
  have "text_series E scenario_frame ''Narration''
      = Inr [''Salary credit'', ''UPI grocery payment'', ''UPI fuel payment'']"
    by (simp add: text_series_def select_def scenario_frame_def cell_at_def cell_str_def)
  moreover have "map strip [''Salary credit'', ''UPI grocery payment'', ''UPI fuel payment'']
      = [''Salary credit'', ''UPI grocery payment'', ''UPI fuel payment'']"
    by (simp add: strip_def is_space_def)
  ultimately show ?thesis
    by (simp add: resolve_descriptions_def scenario_detected_def try_bind_def)
qed

lemma scenario_dates:
  "\<exists>d1 d2 d3. resolve_dates E scenario_frame (Some ''Txn Date'') = Inr [d1, d2, d3]"
proof -
  have "distinct (columns scenario_frame)" "''Txn Date'' \<in> set (columns scenario_frame)"
    by (simp_all add: scenario_frame_def)
  then obtain vs where v: "resolve_dates E scenario_frame (Some ''Txn Date'') = Inr vs"
    using resolve_dates_returns [of scenario_frame "Some ''Txn Date''" E] by auto
  then have "length vs = 3"
    using resolve_dates_length [OF v] by (simp add: scenario_frame_def)
  then obtain d1 d2 d3 where "vs = [d1, d2, d3]"
    by (auto simp: length_Suc_conv numeral_3_eq_3)
  then show ?thesis
    using v by blast
qed

lemma scenario_canonical:
  "canonical_rows [d1, d2, d3] [Some 45000, Some 1200, Some 800] [''credit'', ''debit'', ''debit'']
      [Some 52000, Some 50800, Some 50000]
      [''Salary credit'', ''UPI grocery payment'', ''UPI fuel payment'']
     = scenario_txns d1 d2 d3"
proof -
  have c: "coerce_type ''credit'' = ''credit''" "coerce_type ''debit'' = ''debit''"
    by (simp_all add: coerce_type_def lower_def)
  show ?thesis
    by (simp add: canonical_rows_Cons c scenario_txns_def)
qed

lemma scenario_normalize:
  "\<exists>d1 d2 d3. normalize_statement E scenario_frame
     = Inr (scenario_txns d1 d2 d3, scenario_detected\<lparr>amount_col := None\<rparr>)"
proof -
  obtain d1 d2 d3 where d: "resolve_dates E scenario_frame (Some ''Txn Date'') = Inr [d1, d2, d3]"
    using scenario_dates by blast
  have w: "scenario_frame\<lparr>columns := map strip (columns scenario_frame)\<rparr> = scenario_frame"
    by (simp add: scenario_stripped)
  have sd: "detect_columns (map strip (columns scenario_frame)) = scenario_detected"
    by (simp only: scenario_stripped scenario_detect)
  have dc: "date_col scenario_detected = Some ''Txn Date''"
    "debit_col scenario_detected \<noteq> None \<and> credit_col scenario_detected \<noteq> None"
    by (simp_all add: scenario_detected_def)
  have 1: "resolve_dates E (scenario_frame\<lparr>columns := map strip (columns scenario_frame)\<rparr>)
      (date_col (detect_columns (map strip (columns scenario_frame)))) = Inr [d1, d2, d3]"
    by (simp only: w sd dc d)
  have 2: "resolve_amounts E (scenario_frame\<lparr>columns := map strip (columns scenario_frame)\<rparr>)
      (detect_columns (map strip (columns scenario_frame)))
     = Inr (Some ''CR Amt'', [Some 45000, Some 1200, Some 800], [''credit'', ''debit'', ''debit''])"
    by (simp only: w sd scenario_amounts)
  have 3: "resolve_balances E (scenario_frame\<lparr>columns := map strip (columns scenario_frame)\<rparr>)
      (detect_columns (map strip (columns scenario_frame)))
     = Inr [Some 52000, Some 50800, Some 50000]"
    by (simp only: w sd scenario_balances)
  have 4: "resolve_descriptions E (scenario_frame\<lparr>columns := map strip (columns scenario_frame)\<rparr>)
      (detect_columns (map strip (columns scenario_frame)))
     = Inr [''Salary credit'', ''UPI grocery payment'', ''UPI fuel payment'']"
    by (simp only: w sd scenario_descriptions)
  have "normalize_statement E scenario_frame
     = Inr (canonical_rows [d1, d2, d3] [Some 45000, Some 1200, Some 800]
              [''credit'', ''debit'', ''debit''] [Some 52000, Some 50800, Some 50000]
              [''Salary credit'', ''UPI grocery payment'', ''UPI fuel payment''],
            (detect_columns (map strip (columns scenario_frame)))\<lparr>amount_col :=
              (if debit_col (detect_columns (map strip (columns scenario_frame))) \<noteq> None
                  \<and> credit_col (detect_columns (map strip (columns scenario_frame))) \<noteq> None
               then None else Some ''CR Amt'')\<rparr>)"
    by (simp add: normalize_statement_def Let_def try_bind_def 1 2 3 4)
  then have "normalize_statement E scenario_frame
     = Inr (scenario_txns d1 d2 d3, scenario_detected\<lparr>amount_col := None\<rparr>)"
    by (simp add: scenario_canonical sd dc)
  then show ?thesis
    by blast
qed

lemma scenario_load:
  assumes r: "read_csv E scenario_csv = Returned scenario_frame"
    and x: "file_extension filename \<notin> {''xlsx'', ''xls'', ''json'', ''xml'', ''pdf'', ''docx'', ''doc''}"
  shows "\<exists>tag. load_statement_dataframe E scenario_csv filename = (scenario_frame, tag)"
proof -
  have ne: "\<not> frame_empty scenario_frame"
    by (simp add: frame_empty_def scenario_frame_def)
  have "\<exists>tag rest. loaders E scenario_csv filename = (tag, Returned (Some scenario_frame)) # rest"
    using x by (simp add: loaders_def Let_def r as_candidate_def)
  then obtain tag rest where
    "loaders E scenario_csv filename = (tag, Returned (Some scenario_frame)) # rest"
    by blast
  then have "first_hit (loaders E scenario_csv filename) = Some (scenario_frame, tag)"
    using ne by simp
  then show ?thesis
    by (simp add: load_statement_dataframe_def Let_def)
qed

text \<open>
  Claim C2. For the CSV document with the header
  \<open>Txn Date,Narration,CR Amt,DR Amt,Running Bal\<close> and the three rows of the scenario,
  read by \<open>pd.read_csv\<close> into the table \<open>scenario_frame\<close> and tried first (no filename,
  or an extension that puts no other reader ahead), \<open>analyze_bank_statement\<close> returns
  monthly\_income\_estimate 45000.00, monthly\_expense\_estimate 2000.00,
  avg\_monthly\_balance 50933.33 and upi\_transaction\_frequency 2, which is at least 2.
\<close>

theorem scenario_summary:
  assumes r: "read_csv E scenario_csv = Returned scenario_frame"
    and x: "file_extension filename \<notin> {''xlsx'', ''xls'', ''json'', ''xml'', ''pdf'', ''docx'', ''doc''}"
  shows "\<exists>s. analyze_bank_statement E scenario_csv filename = Inr s
    \<and> monthly_income_estimate s = 45000
    \<and> monthly_expense_estimate s = 2000
    \<and> avg_monthly_balance s = 50933.33
    \<and> upi_transaction_frequency s = 2
    \<and> upi_transaction_frequency s \<ge> 2"
proof -
  obtain tag where l: "load_statement_dataframe E scenario_csv filename = (scenario_frame, tag)"
    using scenario_load [OF r x] by blast
  obtain d1 d2 d3 where n: "normalize_statement E scenario_frame
     = Inr (scenario_txns d1 d2 d3, scenario_detected\<lparr>amount_col := None\<rparr>)"
    using scenario_normalize by blast
  let ?s = "summarize (scenario_txns d1 d2 d3) (scenario_detected\<lparr>amount_col := None\<rparr>)"
  have ne: "\<not> frame_empty scenario_frame" "scenario_txns d1 d2 d3 \<noteq> []"
    by (simp_all add: frame_empty_def scenario_frame_def scenario_txns_def)
  have a: "analyze_bank_statement E scenario_csv filename = Inr ?s"
    by (simp add: analyze_bank_statement_def l n ne)
  have i: "monthly_income_estimate ?s = 45000"
    by (simp add: summarize_income scenario_txns_def py_round_def)
  have e: "monthly_expense_estimate ?s = 2000"
    by (simp add: summarize_expense scenario_txns_def py_round_def)
  have b: "avg_monthly_balance ?s = 50933.33"
    by (simp add: summarize_balance scenario_txns_def List.map_filter_simps mean_def
        py_round_def Let_def)
  have u: "upi_transaction_frequency ?s = 2"
    by (simp add: summarize_upi scenario_txns_def scenario_detected_def contains_any_def
        upi_words_def lower_def)
  show ?thesis
    using a i e b u by simp
qed

theorem scenario_summary_witness:
  "read_csv (csv_env scenario_csv scenario_frame) scenario_csv = Returned scenario_frame
   \<and> file_extension (Some ''statement_anyshape.csv'')
        \<notin> {''xlsx'', ''xls'', ''json'', ''xml'', ''pdf'', ''docx'', ''doc''}
   \<and> (\<exists>s. analyze_bank_statement (csv_env scenario_csv scenario_frame) scenario_csv
              (Some ''statement_anyshape.csv'') = Inr s
         \<and> monthly_income_estimate s = 45000
         \<and> monthly_expense_estimate s = 2000
         \<and> avg_monthly_balance s = 50933.33
         \<and> upi_transaction_frequency s = 2
         \<and> upi_transaction_frequency s \<ge> 2)"
proof -
  have r: "read_csv (csv_env scenario_csv scenario_frame) scenario_csv = Returned scenario_frame"
    by (simp add: csv_env_def plain_env_def)
  have x: "file_extension (Some ''statement_anyshape.csv'')
        \<notin> {''xlsx'', ''xls'', ''json'', ''xml'', ''pdf'', ''docx'', ''doc''}"
    by (simp add: file_extension_def lower_def)
  show ?thesis
    using scenario_summary [OF r x] r x by blast
qed

end
